theory Spec2Isabelle
  imports Complex_Main
begin

section \<open>Conventions of the embedding\<close>

text \<open>
  The pipe-flow calculator is written in Python. Its functions are embedded as HOL
  functions under the following conventions.

  \<^item> A Python \<^verbatim>\<open>float\<close> is a \<^typ>\<open>real\<close>, and the decimal literals of the
    source denote the rationals they spell. What floating point does beyond exact
    arithmetic is written out where the control flow or a stated property depends on it:
    the \<^verbatim>\<open>OverflowError\<close> that \<^verbatim>\<open>x ** 2\<close> raises on a Python float, the
    \<^verbatim>\<open>ZeroDivisionError\<close> of float division, the \<^verbatim>\<open>nan\<close> of
    \<^verbatim>\<open>numpy.sqrt\<close> on a negative number, and the rounding (underflow included) of
    the head-loss formula, which is a parameter there, with the range beyond which an
    operation yields \<^verbatim>\<open>inf\<close>. Elsewhere arithmetic is exact.
  \<^item> A Python \<^verbatim>\<open>str\<close> is a list of code points. Every text of the tables lies
    in the Latin-1 range, so a code point is a \<^typ>\<open>char\<close> (one byte, read as the code
    point of that number), and \<^verbatim>\<open>str.lower\<close>, \<^verbatim>\<open>str.strip\<close> are written out
    for that range.
  \<^item> A dictionary literal is an association list in source order, read with
    \<^const>\<open>map_of\<close>; \<^verbatim>\<open>d.get(k)\<close> is \<^term>\<open>map_of d k\<close> and
    \<^verbatim>\<open>d.get(k, v)\<close> falls back to \<^verbatim>\<open>v\<close>.
\<close>

section \<open>Strings: \<^verbatim>\<open>str.lower\<close> and \<^verbatim>\<open>str.strip\<close>\<close>

definition code_point :: "char \<Rightarrow> nat" where
  "code_point c = of_char c"

text \<open>
  \<^verbatim>\<open>str.lower\<close> on Latin-1: the letters A..Z (65..90) and the accented capitals
  U+00C0..U+00DE except the multiplication sign U+00D7 move up by 32; every other code
  point of the range is left alone.
\<close>

definition lower_char :: "char \<Rightarrow> char" where
  "lower_char c =
     (let n = code_point c
      in if (65 \<le> n \<and> n \<le> 90) \<or> (192 \<le> n \<and> n \<le> 222 \<and> n \<noteq> 215)
         then char_of (n + 32) else c)"

definition lower :: "string \<Rightarrow> string" where
  "lower s = map lower_char s"

text \<open>
  \<^verbatim>\<open>str.strip()\<close> removes leading and trailing white space. In Latin-1 the white
  space code points are 9..13, 28..32, 133 and 160.
\<close>

definition is_space :: "char \<Rightarrow> bool" where
  "is_space c =
     (let n = code_point c
      in (9 \<le> n \<and> n \<le> 13) \<or> (28 \<le> n \<and> n \<le> 32) \<or> n = 133 \<or> n = 160)"

definition strip :: "string \<Rightarrow> string" where
  "strip s = rev (dropWhile is_space (rev (dropWhile is_space s)))"

section \<open>The lookup tables (\<^verbatim>\<open>data_tables.py\<close>)\<close>

subsection \<open>Internal pipe diameters in metres\<close>

text \<open>
  Keys are pairs (nominal size, schedule). Python compares the integer key \<^verbatim>\<open>1\<close>
  equal to the float \<^verbatim>\<open>1.0\<close> and hashes both alike, so the nominal size is a real.
\<close>

definition PIPE_DIAMETERS_M :: "((real \<times> int) \<times> real) list" where
  "PIPE_DIAMETERS_M =
    [((0.125, 40), 0.0068),
     ((0.25, 40), 0.0092),
     ((0.375, 40), 0.0125),
     ((0.5, 40), 0.0158),
     ((0.75, 40), 0.0209),
     ((1, 40), 0.0266),
     ((1.25, 40), 0.0351),
     ((1.5, 40), 0.0409),
     ((2, 40), 0.0525),
     ((2.5, 40), 0.0627),
     ((3, 40), 0.0779),
     ((3.5, 40), 0.0901),
     ((4, 40), 0.1023),
     ((5, 40), 0.128),
     ((6, 40), 0.154),
     ((8, 40), 0.203),
     ((10, 40), 0.255),
     ((12, 40), 0.303),
     ((14, 40), 0.333),
     ((16, 40), 0.381),
     ((18, 40), 0.429),
     ((20, 40), 0.478),
     ((24, 40), 0.575)]"

definition CONVERSION_M_TO_FT :: real where
  "CONVERSION_M_TO_FT = 3.28084"

definition get_pipe_diameter :: "real \<Rightarrow> int \<Rightarrow> string \<Rightarrow> real" where
  "get_pipe_diameter nominal schedule system =
     (let key = (nominal, schedule);
          diameter_m =
            (case map_of PIPE_DIAMETERS_M key of
               Some d \<Rightarrow> d
             | None \<Rightarrow> if system = ''SI'' then nominal else nominal / CONVERSION_M_TO_FT)
      in if system = ''SI'' then diameter_m else diameter_m * CONVERSION_M_TO_FT)"

subsection \<open>Minor-loss coefficients\<close>

text \<open>
  The keys are spelled as in the source, capitals included. The accented letters and the
  degree sign are given by code point: U+00E1 (a acute), U+00F3 (o acute), U+00F1
  (n tilde), U+00C1 (capital A acute), U+00B0 (degree), U+0027 (apostrophe).
\<close>

definition MINOR_LOSS_COEFFICIENTS :: "(string \<times> real) list" where
  "MINOR_LOSS_COEFFICIENTS =
    [(''Rejilla de Entrada'', 0.80),
     (''V'' @ [CHR 0xE1] @ ''lvula de Pie'', 3.00),
     (''Entrada Cuadrada'', 0.50),
     (''Entrada Abocinada'', 0.10),
     (''Entrada de Borda o Reentrada'', 1.00),
     (''Ampliaci'' @ [CHR 0xF3] @ ''n Gradual'', 0.30),
     (''Ampliaci'' @ [CHR 0xF3] @ ''n Brusca'', 0.20),
     (''Reducci'' @ [CHR 0xF3] @ ''n Gradual'', 0.25),
     (''Reducci'' @ [CHR 0xF3] @ ''n Brusca'', 0.35),
     (''Codo Corto 90'' @ [CHR 0xB0], 0.90),
     (''Codo Corto 45'' @ [CHR 0xB0], 0.40),
     (''Codo Largo 90'' @ [CHR 0xB0], 0.40),
     (''Codo Largo 45'' @ [CHR 0xB0], 0.20),
     (''Codo Largo 22'' @ [CHR 0xB0] @ ''30'' @ [CHR 0x27], 0.10),
     (''Tee Flujo Recto'', 0.10),
     (''Tee Flujo en '' @ [CHR 0xC1] @ ''ngulo'', 1.50),
     (''Tee Salida Bilateral'', 1.80),
     (''V'' @ [CHR 0xE1] @ ''lvula de Compuerta Abierta'', 5.00),
     (''V'' @ [CHR 0xE1] @ ''lvula de '' @ [CHR 0xC1] @ ''ngulo Abierta'', 5.00),
     (''V'' @ [CHR 0xE1] @ ''lvula de Globo Abierta'', 10.0),
     (''V'' @ [CHR 0xE1] @ ''lvula Alfalfera'', 2.00),
     (''V'' @ [CHR 0xE1] @ ''lvula de Retenci'' @ [CHR 0xF3] @ ''n'', 2.50),
     (''Boquilla'', 2.75),
     (''Controlador de Gasto'', 2.50),
     (''Medidor Venturi'', 2.50),
     (''Confluencia'', 0.40),
     (''Bifurcaci'' @ [CHR 0xF3] @ ''n'', 0.10),
     (''Peque'' @ [CHR 0xF1] @ ''a Derivaci'' @ [CHR 0xF3] @ ''n'', 0.03),
     (''V'' @ [CHR 0xE1] @ ''lvula de Mariposa Abierta'', 0.24)]"

definition get_minor_loss_k :: "string \<Rightarrow> real" where
  "get_minor_loss_k componente =
     (case map_of MINOR_LOSS_COEFFICIENTS (strip (lower componente)) of
        Some k \<Rightarrow> k
      | None \<Rightarrow> 0.0)"

section \<open>The numerical engine (\<^verbatim>\<open>fluid_mechanics.py\<close>)\<close>

subsection \<open>Exceptions, diagnostics and the root finder\<close>

text \<open>
  A raised exception is a value: a computation of the engine yields either an exception
  or a result, together with the diagnostics (\<^verbatim>\<open>warnings.warn\<close>) issued on the way,
  in order. The diagnostics of the engine itself are
  \<^item> \<open>ReNonPositive\<close>: "Re <= 0 en colebrook_white_friction_factor; devolviendo 0.0",
  \<^item> \<open>ColebrookNotConverged\<close>: the friction-factor chain fell back to the explicit guess,
  \<^item> \<open>VelocityNotSolved\<close>: no strategy of the velocity solver produced a root,
  and \<open>LibraryWarning\<close> stands for any warning issued inside the root finder.
\<close>

datatype py_exn = ValueError | ZeroDivisionError | RuntimeError | OverflowError

datatype diagnostic = ReNonPositive | ColebrookNotConverged | VelocityNotSolved | LibraryWarning

type_synonym 'a py = "(py_exn + 'a) \<times> diagnostic list"

text \<open>
  \<^verbatim>\<open>scipy.optimize.root_scalar\<close> is not part of the repository. It is a parameter
  of the model: any function from the residual, the method with its starting points and
  the iteration cap to either an exception or a \<^verbatim>\<open>RootResults\<close> object, of which
  the engine reads the fields \<^verbatim>\<open>converged\<close> and \<^verbatim>\<open>root\<close>.
\<close>

record RootResults =
  converged :: bool
  root :: real

datatype rs_method = Brentq real real | Secant real real | Newton real

type_synonym root_scalar = "(real \<Rightarrow> real py) \<Rightarrow> rs_method \<Rightarrow> nat \<Rightarrow> RootResults py"

text \<open>
  Each strategy has the shape
  \<^verbatim>\<open>try: sol = root_scalar(...); if sol.converged and sol.root > 0: return ...\<close>
  \<^verbatim>\<open>except Exception: pass\<close>:
  an exception and a rejected result both mean that the next strategy is tried.
\<close>

definition accept_root :: "RootResults py \<Rightarrow> real option \<times> diagnostic list" where
  "accept_root r =
     (case r of
        (Inl e, ws) \<Rightarrow> (None, ws)
      | (Inr sol, ws) \<Rightarrow> (if converged sol \<and> root sol > 0 then Some (root sol) else None, ws))"

text \<open>
  The first strategy of both chains evaluates the residual at the two ends of a bracket
  and calls \<^verbatim>\<open>brentq\<close> only when the signs differ, all inside one
  \<^verbatim>\<open>try\<close> block.
\<close>

definition bracket_attempt ::
  "root_scalar \<Rightarrow> (real \<Rightarrow> real py) \<Rightarrow> real \<Rightarrow> real \<Rightarrow> real option \<times> diagnostic list" where
  "bracket_attempt rs F lo hi =
     (case F lo of
        (Inl e, w1) \<Rightarrow> (None, w1)
      | (Inr f_low, w1) \<Rightarrow>
          (case F hi of
             (Inl e, w2) \<Rightarrow> (None, w1 @ w2)
           | (Inr f_high, w2) \<Rightarrow>
               if sgn f_low \<noteq> sgn f_high
               then (case accept_root (rs F (Brentq lo hi) 200) of (r, w3) \<Rightarrow> (r, w1 @ w2 @ w3))
               else (None, w1 @ w2)))"

subsection \<open>Reynolds number\<close>

definition reynolds_number :: "real \<Rightarrow> real \<Rightarrow> real \<Rightarrow> real" where
  "reynolds_number V D nu = (if V \<le> 0 \<or> D \<le> 0 \<or> nu \<le> 0 then 0.0 else (V * D) / nu)"

subsection \<open>Friction factor\<close>

definition colebrook_equation :: "real \<Rightarrow> real \<Rightarrow> real \<Rightarrow> real" where
  "colebrook_equation Rey epsilon_D f =
     (if f \<le> 0 then 1000000
      else 1.0 / sqrt f + 2.0 * log 10 ((epsilon_D / 3.7) + (2.51 / (Rey * sqrt f))))"

text \<open>
  The Reynolds number, \<^verbatim>\<open>Re\<close> in the source, is written \<open>Rey\<close>, since
  \<open>Re\<close> is the real part of a complex number in HOL.

  The explicit initial estimate is computed inside \<^verbatim>\<open>try\<close>, with the constant
  \<^verbatim>\<open>0.02\<close> as the handler's value. On floats \<^verbatim>\<open>numpy\<close> raises nothing
  in that expression (it yields \<^verbatim>\<open>nan\<close> or \<^verbatim>\<open>inf\<close> with a warning), so the
  expression always has a value and the handler is kept as the branch that it never
  takes.
\<close>

definition swamee_jain :: "real \<Rightarrow> real \<Rightarrow> py_exn + real" where
  "swamee_jain Rey epsilon_D =
     Inr (0.25 / (log 10 ((epsilon_D / 3.7) + (5.74 / (Rey powr 0.9))))\<^sup>2)"

definition f_guess :: "real \<Rightarrow> real \<Rightarrow> real" where
  "f_guess Rey epsilon_D =
     (case swamee_jain Rey epsilon_D of Inr v \<Rightarrow> v | Inl e \<Rightarrow> 0.02)"

text \<open>The two starting points of the secant strategy, \<^verbatim>\<open>x0\<close> and \<^verbatim>\<open>x1\<close>.\<close>

definition secant_x0 :: "real \<Rightarrow> real" where
  "secant_x0 fg = max 0.000001 (fg * 0.8)"

definition secant_x1 :: "real \<Rightarrow> real" where
  "secant_x1 fg = min 0.5 (fg * 1.2)"

definition colebrook_white_friction_factor ::
  "root_scalar \<Rightarrow> real \<Rightarrow> real \<Rightarrow> real \<times> diagnostic list" where
  "colebrook_white_friction_factor rs Rey epsilon_D =
     (if Rey \<le> 0 then (0.0, [ReNonPositive])
      else if Rey < 2000 then (64.0 / Rey, [])
      else
        let eq = (\<lambda>f. (Inr (colebrook_equation Rey epsilon_D f), []));
            fg = f_guess Rey epsilon_D
        in case bracket_attempt rs eq 0.000001 0.1 of
             (Some f, w1) \<Rightarrow> (f, w1)
           | (None, w1) \<Rightarrow>
               (case accept_root (rs eq (Secant (secant_x0 fg) (secant_x1 fg)) 200) of
                  (Some f, w2) \<Rightarrow> (f, w1 @ w2)
                | (None, w2) \<Rightarrow>
                    (case accept_root (rs eq (Newton fg) 200) of
                       (Some f, w3) \<Rightarrow> (f, w1 @ w2 @ w3)
                     | (None, w3) \<Rightarrow> (fg, w1 @ w2 @ w3 @ [ColebrookNotConverged]))))"

subsection \<open>Head loss and pumping power\<close>

text \<open>
  The head loss in exact arithmetic: the formula of the source over the reals, without
  rounding and without the exception of \<^verbatim>\<open>V ** 2\<close>.
\<close>

definition total_head_loss :: "real \<Rightarrow> real \<Rightarrow> real \<Rightarrow> real \<Rightarrow> real \<Rightarrow> real \<Rightarrow> real" where
  "total_head_loss f L D V sum_K g =
     (if D \<le> 0 \<or> g \<le> 0 then 0.0
      else
        let velocity_head = (V\<^sup>2) / (2 * g);
            Hf = f * (L / D) * velocity_head;
            Hm = sum_K * velocity_head
        in Hf + Hm)"

text \<open>
  The same function as Python computes it on floats. \<^verbatim>\<open>V ** 2\<close> on a Python float
  raises \<^verbatim>\<open>OverflowError\<close> when the square leaves the double range, that is when
  it reaches \<open>2^1024 - 2^970\<close>, the least real that rounds to infinity. Every other
  operation delivers the rounded exact result; the rounding is the parameter \<open>fl\<close>
  (round-to-nearest in Python, which also takes a tiny square to \<^verbatim>\<open>0.0\<close>).
  Doubling \<^verbatim>\<open>g\<close> is exact in binary floating point while it stays in range.
  With the identity for \<open>fl\<close> and the square in range this is \<open>total_head_loss\<close>.
\<close>

definition DBL_OVERFLOW :: real where
  "DBL_OVERFLOW = 2 ^ 1024 - 2 ^ 970"

definition py_pow2 :: "real \<Rightarrow> py_exn + real" where
  "py_pow2 x = (if DBL_OVERFLOW \<le> x\<^sup>2 then Inl OverflowError else Inr (x\<^sup>2))"

definition total_head_loss_fl ::
  "(real \<Rightarrow> real) \<Rightarrow> real \<Rightarrow> real \<Rightarrow> real \<Rightarrow> real \<Rightarrow> real \<Rightarrow> real \<Rightarrow> py_exn + real" where
  "total_head_loss_fl fl f L D V sum_K g =
     (if D \<le> 0 \<or> g \<le> 0 then Inr 0.0
      else
        case py_pow2 V of
          Inl e \<Rightarrow> Inl e
        | Inr V2 \<Rightarrow>
            let velocity_head = fl (fl V2 / (2 * g));
                Hf = fl (fl (f * fl (L / D)) * velocity_head);
                Hm = fl (sum_K * velocity_head)
            in Inr (fl (Hf + Hm)))"

text \<open>
  A rounding that is exact except for underflow: what is at most \<open>2^-1075\<close> in absolute
  value, half the least positive double, becomes zero.
\<close>

definition flush_to_zero :: "real \<Rightarrow> real" where
  "flush_to_zero x = (if \<bar>x\<bar> \<le> 1 / 2 ^ 1075 then 0 else x)"

text \<open>
  An operation whose exact result is beyond the double range delivers \<^verbatim>\<open>inf\<close>, and
  \<^verbatim>\<open>nan\<close> can follow from it (\<^verbatim>\<open>0.0 * inf\<close>); neither is a real number. The
  rounded formula above is the value of \<^verbatim>\<open>total_head_loss\<close> when every operation
  of it stays in range: the square, the doubling, the two quotients, the three products
  and the sum.
\<close>

definition head_loss_in_range ::
  "(real \<Rightarrow> real) \<Rightarrow> real \<Rightarrow> real \<Rightarrow> real \<Rightarrow> real \<Rightarrow> real \<Rightarrow> real \<Rightarrow> bool" where
  "head_loss_in_range fl f L D V sum_K g =
     (let velocity_head = fl (fl (V\<^sup>2) / (2 * g));
          Hf = fl (fl (f * fl (L / D)) * velocity_head);
          Hm = fl (sum_K * velocity_head)
      in \<bar>V\<^sup>2\<bar> < DBL_OVERFLOW
       \<and> \<bar>2 * g\<bar> < DBL_OVERFLOW
       \<and> \<bar>fl (V\<^sup>2) / (2 * g)\<bar> < DBL_OVERFLOW
       \<and> \<bar>L / D\<bar> < DBL_OVERFLOW
       \<and> \<bar>f * fl (L / D)\<bar> < DBL_OVERFLOW
       \<and> \<bar>fl (f * fl (L / D)) * velocity_head\<bar> < DBL_OVERFLOW
       \<and> \<bar>sum_K * velocity_head\<bar> < DBL_OVERFLOW
       \<and> \<bar>Hf + Hm\<bar> < DBL_OVERFLOW)"

definition pumping_power :: "real \<Rightarrow> real \<Rightarrow> string \<Rightarrow> real \<Rightarrow> py_exn + real" where
  "pumping_power Q delta_P system efficiency =
     (if efficiency \<le> 0 then Inl ValueError
      else
        let power_brute = Q * delta_P
        in if system = ''SI'' then Inr (power_brute / efficiency)
           else Inr ((power_brute / 550.0) / efficiency))"

subsection \<open>The inverse problem: velocity from an energy balance\<close>

text \<open>
  \<^verbatim>\<open>material_epsilon\<close> may be \<^verbatim>\<open>None\<close>. The float division
  \<^verbatim>\<open>(P1 - P2) / (rho * g)\<close> raises \<^verbatim>\<open>ZeroDivisionError\<close> when the divisor is
  zero; it comes after the friction factor, whose diagnostics are issued by then, and
  after the head loss, whose \<^verbatim>\<open>V ** 2\<close> raises \<^verbatim>\<open>OverflowError\<close> for a
  velocity beyond the range of squares.
\<close>

definition energy_equation_for_V ::
  "root_scalar \<Rightarrow> real \<Rightarrow> real \<Rightarrow> real \<Rightarrow> real \<Rightarrow> real \<Rightarrow> real \<Rightarrow> real \<Rightarrow> real \<Rightarrow> real \<Rightarrow> real \<Rightarrow> real
     \<Rightarrow> real option \<Rightarrow> real py" where
  "energy_equation_for_V rs V P1 P2 z1 z2 L D rho nu sum_K g material_epsilon =
     (if V \<le> 0 then (Inr 10000000000, [])
      else
        let Rey = reynolds_number V D nu
        in if D = 0 then (Inr 10000000000, [])
           else
             let epsilon_D = (case material_epsilon of Some e \<Rightarrow> e / D | None \<Rightarrow> 0.0)
             in case colebrook_white_friction_factor rs Rey epsilon_D of
                  (f, ws) \<Rightarrow>
                    (case total_head_loss_fl (\<lambda>x. x) f L D V sum_K g of
                       Inl e \<Rightarrow> (Inl e, ws)
                     | Inr hL \<Rightarrow>
                         if rho * g = 0 then (Inl ZeroDivisionError, ws)
                         else (Inr (hL - ((P1 - P2) / (rho * g) + (z1 - z2))), ws)))"

text \<open>
  The rough estimate that seeds the secant strategy. Its inner \<^verbatim>\<open>try\<close> turns the
  division by zero into the midpoint of the search interval. For a positive available
  head and a negative \<^verbatim>\<open>g\<close> the argument of \<^verbatim>\<open>np.sqrt\<close> is negative: numpy
  warns and yields \<^verbatim>\<open>nan\<close>, which is \<open>None\<close> here.
\<close>

definition V_est ::
  "real \<Rightarrow> real \<Rightarrow> real \<Rightarrow> real \<Rightarrow> real \<Rightarrow> real \<Rightarrow> real \<Rightarrow> real \<Rightarrow> real option \<times> diagnostic list" where
  "V_est P1 P2 z1 z2 rho g V_min V_max =
     (if rho * g = 0 then (Some ((V_min + V_max) / 2.0), [])
      else
        let delta_z_p = (P1 - P2) / (rho * g) + (z1 - z2)
        in if delta_z_p > 0
           then (if 2 * g * delta_z_p < 0 then (None, [LibraryWarning])
                 else (Some (sqrt (2 * g * delta_z_p)), []))
           else (Some ((V_min + V_max) / 2.0), []))"

text \<open>
  The seeds \<^verbatim>\<open>x0 = max(V_min, V_est * 0.5)\<close> and
  \<^verbatim>\<open>x1 = min(V_max, V_est * 1.5)\<close>. Python's \<^verbatim>\<open>max\<close> and \<^verbatim>\<open>min\<close> keep
  their first argument unless the second compares greater, respectively less, which a
  \<^verbatim>\<open>nan\<close> never does.
\<close>

definition seed_x0 :: "real \<Rightarrow> real option \<Rightarrow> real" where
  "seed_x0 V_min Ve = (case Ve of None \<Rightarrow> V_min | Some v \<Rightarrow> max V_min (v * 0.5))"

definition seed_x1 :: "real \<Rightarrow> real option \<Rightarrow> real" where
  "seed_x1 V_max Ve = (case Ve of None \<Rightarrow> V_max | Some v \<Rightarrow> min V_max (v * 1.5))"

text \<open>
  \<^verbatim>\<open>solve_velocity\<close> returns the pair \<^verbatim>\<open>(V, Q)\<close>, or \<^verbatim>\<open>(None, None)\<close>,
  which is \<open>None\<close> here. The search bounds \<^verbatim>\<open>V_min\<close>, \<^verbatim>\<open>V_max\<close> default
  to \<^verbatim>\<open>1e-3\<close> and \<^verbatim>\<open>20.0\<close> in the source and are explicit arguments here.
  The area is computed first, outside every \<^verbatim>\<open>try\<close> block, so the
  \<^verbatim>\<open>OverflowError\<close> of \<^verbatim>\<open>D ** 2\<close> leaves the function.
\<close>

definition solve_velocity ::
  "root_scalar \<Rightarrow> real \<Rightarrow> real \<Rightarrow> real \<Rightarrow> real \<Rightarrow> real \<Rightarrow> real \<Rightarrow> real \<Rightarrow> real \<Rightarrow> real \<Rightarrow> real
     \<Rightarrow> real option \<Rightarrow> real \<Rightarrow> real \<Rightarrow> (real \<times> real) option py" where
  "solve_velocity rs P1 P2 z1 z2 L D rho nu sum_K g material_epsilon V_min V_max =
     (case py_pow2 D of
        Inl e \<Rightarrow> (Inl e, [])
      | Inr D2 \<Rightarrow>
          let Area = pi * D2 / 4.0;
              F = (\<lambda>V. energy_equation_for_V rs V P1 P2 z1 z2 L D rho nu sum_K g material_epsilon)
          in case bracket_attempt rs F V_min V_max of
               (Some V, w1) \<Rightarrow> (Inr (Some (V, V * Area)), w1)
             | (None, w1) \<Rightarrow>
                 (case V_est P1 P2 z1 z2 rho g V_min V_max of
                    (Ve, we) \<Rightarrow>
                      let x0 = seed_x0 V_min Ve;
                          x1 = seed_x1 V_max Ve
                      in case accept_root (rs F (Secant x0 x1) 200) of
                           (Some V, w2) \<Rightarrow> (Inr (Some (V, V * Area)), w1 @ we @ w2)
                         | (None, w2) \<Rightarrow>
                             (case accept_root (rs F (Newton ((V_min + V_max) / 2.0)) 200) of
                                (Some V, w3) \<Rightarrow> (Inr (Some (V, V * Area)), w1 @ we @ w2 @ w3)
                              | (None, w3) \<Rightarrow>
                                  (Inr None, w1 @ we @ w2 @ w3 @ [VelocityNotSolved]))))"

subsection \<open>Chart data\<close>

text \<open>
  \<^verbatim>\<open>numpy.linspace(start, stop, num)\<close> with its default end point: the multiples of
  the step \<^verbatim>\<open>(stop - start) / (num - 1)\<close> added to \<^verbatim>\<open>start\<close>, the last point
  overwritten by \<^verbatim>\<open>stop\<close> when there is more than one; a single point is
  \<^verbatim>\<open>start\<close>.
\<close>

definition linspace :: "real \<Rightarrow> real \<Rightarrow> nat \<Rightarrow> real list" where
  "linspace start stop num =
     (if num = 0 then []
      else if num = 1 then [start]
      else map (\<lambda>i. start + real i * ((stop - start) / real (num - 1))) [0..<num - 1] @ [stop])"

text \<open>The \<^verbatim>\<open>for\<close> loop over the sampled velocities, appending to \<^verbatim>\<open>data\<close>.\<close>

fun hl_loop ::
  "root_scalar \<Rightarrow> real \<Rightarrow> real \<Rightarrow> real \<Rightarrow> real \<Rightarrow> real \<Rightarrow> real \<Rightarrow> real list
     \<Rightarrow> (real \<times> real) list \<times> diagnostic list \<Rightarrow> (real \<times> real) list \<times> diagnostic list" where
  "hl_loop rs L D nu sum_K g material_epsilon [] acc = acc"
| "hl_loop rs L D nu sum_K g material_epsilon (V # Vs) (data, ws) =
     (if V \<le> 0 then hl_loop rs L D nu sum_K g material_epsilon Vs (data, ws)
      else
        let Rey = reynolds_number V D nu;
            epsilon_D = (if D \<noteq> 0 then material_epsilon / D else 0.0)
        in case colebrook_white_friction_factor rs Rey epsilon_D of
             (f, w) \<Rightarrow>
               let hL = total_head_loss f L D V sum_K g
               in hl_loop rs L D nu sum_K g material_epsilon Vs (data @ [(V, hL)], ws @ w))"

definition generate_hl_vs_v_data ::
  "root_scalar \<Rightarrow> real \<Rightarrow> real \<Rightarrow> int \<Rightarrow> real \<Rightarrow> real \<Rightarrow> real \<Rightarrow> real \<Rightarrow> real \<Rightarrow> real
     \<Rightarrow> (real \<times> real) list py" where
  "generate_hl_vs_v_data rs V_min V_max steps L D nu sum_K g material_epsilon =
     (if steps \<le> 0 then (Inl ValueError, [])
      else
        let V_values = linspace V_min V_max (nat steps)
        in case hl_loop rs L D nu sum_K g material_epsilon V_values ([], []) of
             (data, ws) \<Rightarrow> (Inr data, ws))"

subsection \<open>A root finder for concrete runs\<close>

text \<open>
  Concrete runs of the engine need some root finder. This one raises on every call, which
  every strategy of the engine treats as a failed attempt.
\<close>

definition raising_root_scalar :: root_scalar where
  "raising_root_scalar F m maxiter = (Inl RuntimeError, [])"


section \<open>Properties of the lookup tables\<close>

subsection \<open>Normalised names contain no capital letter\<close>

lemma lower_char_not_capital:
  "\<not> (65 \<le> code_point (lower_char c) \<and> code_point (lower_char c) \<le> 90)"
proof -
  have lt: "code_point c < 256"
    unfolding code_point_def by (rule nat_of_char_less_256)
  show ?thesis
  proof (cases "(65 \<le> code_point c \<and> code_point c \<le> 90)
                \<or> (192 \<le> code_point c \<and> code_point c \<le> 222 \<and> code_point c \<noteq> 215)")
    case True
    then have "lower_char c = char_of (code_point c + 32)"
      by (simp add: lower_char_def Let_def)
    moreover have "code_point c + 32 < 256"
      using True by auto
    then have "code_point (char_of (code_point c + 32)) = code_point c + 32"
      unfolding code_point_def by (simp add: of_char_of)
    ultimately show ?thesis using True by auto
  next
    case False
    then have "lower_char c = c"
      unfolding lower_char_def Let_def by (simp only: if_False)
    with False show ?thesis by auto
  qed
qed

lemma set_strip: "set (strip s) \<subseteq> set s"
  unfolding strip_def by (metis set_dropWhileD set_rev subsetI)

lemma normalised_no_capital:
  assumes "c \<in> set (strip (lower s))"
  shows "\<not> (65 \<le> code_point c \<and> code_point c \<le> 90)"
proof -
  from assms have "c \<in> set (lower s)" using set_strip by blast
  then obtain d where "c = lower_char d" by (auto simp: lower_def)
  then show ?thesis using lower_char_not_capital by simp
qed

lemma minor_loss_keys_capitalised:
  "\<forall>k \<in> set (map fst MINOR_LOSS_COEFFICIENTS).
     k \<noteq> [] \<and> 65 \<le> code_point (hd k) \<and> code_point (hd k) \<le> 90"
  unfolding MINOR_LOSS_COEFFICIENTS_def code_point_def by simp

text \<open>
  Every key of the minor-loss table starts with a capital letter and the looked-up name
  has none left, so the lookup misses for every name and the default is returned.
\<close>

lemma get_minor_loss_k_always_default: "get_minor_loss_k s = 0"
proof -
  have "strip (lower s) \<notin> fst ` set MINOR_LOSS_COEFFICIENTS"
  proof
    assume "strip (lower s) \<in> fst ` set MINOR_LOSS_COEFFICIENTS"
    then have "strip (lower s) \<noteq> [] \<and> 65 \<le> code_point (hd (strip (lower s)))
               \<and> code_point (hd (strip (lower s))) \<le> 90"
      using minor_loss_keys_capitalised by auto
    moreover from this have "hd (strip (lower s)) \<in> set (strip (lower s))" by simp
    ultimately show False using normalised_no_capital by blast
  qed
  then have "map_of MINOR_LOSS_COEFFICIENTS (strip (lower s)) = None"
    by (simp add: map_of_eq_None_iff)
  then show ?thesis by (simp add: get_minor_loss_k_def)
qed

text \<open>
  Claim C1. A known accessory name, in any casing, is claimed to yield the coefficient of
  its table entry. The table holds \<open>Rejilla de Entrada\<close> with coefficient \<open>0.80\<close>, yet
  looking that very spelling up returns the default \<open>0.0\<close>: the name is lowercased
  before the lookup and the key is not.
\<close>

theorem get_minor_loss_k_misses_table_spelling:
  "map_of MINOR_LOSS_COEFFICIENTS ''Rejilla de Entrada'' = Some 0.80
   \<and> strip (lower ''Rejilla de Entrada'') = ''rejilla de entrada''
   \<and> get_minor_loss_k ''Rejilla de Entrada'' = 0.0"
proof (intro conjI)
  show "map_of MINOR_LOSS_COEFFICIENTS ''Rejilla de Entrada'' = Some 0.80"
    by (simp add: MINOR_LOSS_COEFFICIENTS_def)
  show "strip (lower ''Rejilla de Entrada'') = ''rejilla de entrada''"
    by code_simp
  show "get_minor_loss_k ''Rejilla de Entrada'' = 0.0"
    by code_simp
qed

text \<open>
  Claim C10. When the pair (nominal, schedule) is not a key of the diameter table, the
  nominal value itself is taken as the diameter in the caller's unit: \<open>SI\<close> returns it
  unchanged, any other system returns \<open>(nominal / 3.28084) * 3.28084\<close>; no lookup error
  arises, the function has a value in every case. A table hit \<open>d\<close> is returned as it is
  for \<open>SI\<close> and multiplied by \<open>3.28084\<close> otherwise.
\<close>

theorem get_pipe_diameter_lookup:
  "(map_of PIPE_DIAMETERS_M (nominal, schedule) = None \<longrightarrow>
      get_pipe_diameter nominal schedule system =
        (if system = ''SI'' then nominal else (nominal / 3.28084) * 3.28084))
   \<and> (\<forall>d. map_of PIPE_DIAMETERS_M (nominal, schedule) = Some d \<longrightarrow>
      get_pipe_diameter nominal schedule system =
        (if system = ''SI'' then d else d * 3.28084))"
  by (simp add: get_pipe_diameter_def CONVERSION_M_TO_FT_def)

theorem get_pipe_diameter_lookup_witness:
  "map_of PIPE_DIAMETERS_M (0.06, 40) = None
   \<and> get_pipe_diameter 0.06 40 ''INGLES'' = (0.06 / 3.28084) * 3.28084
   \<and> get_pipe_diameter 0.06 40 ''SI'' = 0.06
   \<and> map_of PIPE_DIAMETERS_M (2, 40) = Some 0.0525
   \<and> get_pipe_diameter 2 40 ''INGLES'' = 0.0525 * 3.28084
   \<and> get_pipe_diameter 2 40 ''SI'' = 0.0525"
proof -
  have miss: "map_of PIPE_DIAMETERS_M (0.06, 40) = None"
    by (simp add: PIPE_DIAMETERS_M_def)
  have hit: "map_of PIPE_DIAMETERS_M (2, 40) = Some 0.0525"
    by (simp add: PIPE_DIAMETERS_M_def)
  have a: "get_pipe_diameter 0.06 40 ''INGLES'' = (0.06 / 3.28084) * 3.28084"
    using get_pipe_diameter_lookup [of "0.06" 40 "''INGLES''", THEN conjunct1, rule_format, OF miss]
    by simp
  have b: "get_pipe_diameter 0.06 40 ''SI'' = 0.06"
    using get_pipe_diameter_lookup [of "0.06" 40 "''SI''", THEN conjunct1, rule_format, OF miss]
    by simp
  have c: "get_pipe_diameter 2 40 ''INGLES'' = 0.0525 * 3.28084"
    using get_pipe_diameter_lookup [of 2 40 "''INGLES''", THEN conjunct2, rule_format, OF hit]
    by simp
  have d: "get_pipe_diameter 2 40 ''SI'' = 0.0525"
    using get_pipe_diameter_lookup [of 2 40 "''SI''", THEN conjunct2, rule_format, OF hit]
    by simp
  show ?thesis
    using miss hit a b c d by (simp only: simp_thms)
qed

section \<open>Properties of the friction-factor solver\<close>

text \<open>
  Claim C3. For every Reynolds number strictly between 0 and 2000 and every relative
  roughness the friction factor is exactly \<open>64 / Re\<close>. The root finder is not consulted:
  the result is the same for every root finder, and no diagnostic is issued.
\<close>

theorem colebrook_laminar_exact:
  "0 < Rey \<Longrightarrow> Rey < 2000 \<Longrightarrow>
     colebrook_white_friction_factor rs Rey epsilon_D = (64 / Rey, [])"
  by (simp add: colebrook_white_friction_factor_def)

theorem colebrook_laminar_exact_witness:
  "(0::real) < 1000 \<and> (1000::real) < 2000
   \<and> colebrook_white_friction_factor raising_root_scalar 1000 0.00045 = (0.064, [])"
  using colebrook_laminar_exact [of 1000 raising_root_scalar "0.00045"] by simp

text \<open>
  Claim C8. For every Reynolds number at most 0 and every relative roughness the friction
  factor is 0 and the only diagnostic is the one for an invalid Reynolds number; nothing
  is raised, the function has no exceptional result.
\<close>

theorem colebrook_nonpositive_reynolds:
  "Rey \<le> 0 \<Longrightarrow> colebrook_white_friction_factor rs Rey epsilon_D = (0, [ReNonPositive])"
  by (simp add: colebrook_white_friction_factor_def)

theorem colebrook_nonpositive_reynolds_witness:
  "(- 5 :: real) \<le> 0
   \<and> colebrook_white_friction_factor raising_root_scalar (- 5) 0.00045 = (0, [ReNonPositive])"
  using colebrook_nonpositive_reynolds [of "- 5" raising_root_scalar "0.00045"] by simp

subsection \<open>The seeds of the secant strategy\<close>

lemma powr_ten: "(10 ^ 10 :: real) powr 0.9 = 10 ^ 9"
proof -
  have "(10 ^ 10 :: real) = 10 powr 10"
    by (simp add: powr_realpow [symmetric] del: powr_numeral)
  then have "(10 ^ 10 :: real) powr 0.9 = 10 powr (10 * 0.9)"
    by (simp only: powr_powr)
  also have "\<dots> = 10 powr 9" by simp
  also have "\<dots> = 10 ^ 9" by (simp add: powr_realpow [symmetric] del: powr_numeral)
  finally show ?thesis .
qed

lemma log_tenth: "log 10 (0.1::real) = - 1"
proof -
  have "log 10 (1 / 10 :: real) = - log 10 10"
    by (rule log_recip)
  then show ?thesis by simp
qed

text \<open>
  At \<open>Re = 10^10\<close> and relative roughness \<open>0.369999978762\<close> the argument of the
  logarithm is exactly \<open>0.1\<close>, so the explicit estimate is \<open>0.25\<close>.
\<close>

lemma f_guess_example: "f_guess (10 ^ 10) 0.369999978762 = 0.25"
proof -
  have "(0.369999978762 / 3.7) + (5.74 / ((10 ^ 10 :: real) powr 0.9)) = (0.1 :: real)"
    unfolding powr_ten by simp
  then show ?thesis
    unfolding f_guess_def swamee_jain_def using log_tenth by simp
qed

text \<open>
  In the turbulent branch the secant strategy is started at \<open>secant_x0\<close> and
  \<open>secant_x1\<close> of the explicit estimate: a root finder that fails to bracket and
  answers a secant call with its first starting point makes the solver return it.
\<close>

lemma colebrook_passes_secant_x0:
  assumes "2000 \<le> Rey"
  shows "colebrook_white_friction_factor
           (\<lambda>F m n. case m of
                       Secant x0 x1 \<Rightarrow> (Inr \<lparr>converged = True, root = x0\<rparr>, [])
                     | _ \<Rightarrow> (Inl RuntimeError, []))
           Rey epsilon_D = (secant_x0 (f_guess Rey epsilon_D), [])"
proof -
  have pos: "0 < secant_x0 (f_guess Rey epsilon_D)"
    by (simp add: secant_x0_def max_def)
  have b: "bracket_attempt
             (\<lambda>F m n. case m of
                         Secant x0 x1 \<Rightarrow> (Inr \<lparr>converged = True, root = x0\<rparr>, [])
                       | _ \<Rightarrow> (Inl RuntimeError, []))
             (\<lambda>f. (Inr (colebrook_equation Rey epsilon_D f), [])) lo hi = (None, [])" for lo hi
    by (simp add: bracket_attempt_def accept_root_def)
  show ?thesis
    using assms pos unfolding colebrook_white_friction_factor_def Let_def b
    by (simp add: accept_root_def)
qed

text \<open>
  Against claim C4 as stated: at \<open>Re = 10^10\<close> (turbulent) and relative roughness
  \<open>0.369999978762\<close> the seeds are \<open>0.2\<close> and \<open>0.3\<close>, both above the upper bracket
  bound \<open>0.1\<close>.
\<close>

theorem secant_seeds_leave_bracket:
  "(2000::real) \<le> 10 ^ 10
   \<and> secant_x0 (f_guess (10 ^ 10) 0.369999978762) = 0.2
   \<and> secant_x1 (f_guess (10 ^ 10) 0.369999978762) = 0.3
   \<and> \<not> (secant_x0 (f_guess (10 ^ 10) 0.369999978762) \<le> 0.1)
   \<and> \<not> (secant_x1 (f_guess (10 ^ 10) 0.369999978762) \<le> 0.1)"
  unfolding f_guess_example by (simp add: secant_x0_def secant_x1_def)

text \<open>
  Claim C4, amended. The seeds are \<open>max(1e-6, 0.8 * f0)\<close> and \<open>min(0.5, 1.2 * f0)\<close>:
  the lower seed is bounded below by \<open>1e-6\<close> only and the upper seed is bounded above by
  \<open>0.5\<close> only (not by the bracket's \<open>0.1\<close>), for every estimate \<open>f0\<close>. When
  \<open>1.25e-6 \<le> f0 \<le> 1/12\<close> no bound is active, the seeds are \<open>0.8 * f0\<close> and
  \<open>1.2 * f0\<close>, and both lie in the bracket \<open>[1e-6, 0.1]\<close>.
\<close>

theorem secant_seeds_bounds:
  "0.000001 \<le> secant_x0 fg \<and> secant_x1 fg \<le> 0.5 \<and>
   (0.00000125 \<le> fg \<and> fg \<le> 1 / 12 \<longrightarrow>
      secant_x0 fg = 0.8 * fg \<and> secant_x1 fg = 1.2 * fg \<and>
      0.000001 \<le> secant_x0 fg \<and> secant_x0 fg \<le> 0.1 \<and>
      0.000001 \<le> secant_x1 fg \<and> secant_x1 fg \<le> 0.1)"
  by (auto simp: secant_x0_def secant_x1_def max_def min_def)

theorem secant_seeds_bounds_witness:
  "0.00000125 \<le> (0.02::real) \<and> (0.02::real) \<le> 1 / 12
   \<and> secant_x0 0.02 = 0.016 \<and> secant_x1 0.02 = 0.024
   \<and> secant_x0 0.02 \<le> 0.1 \<and> 0.000001 \<le> secant_x1 0.02"
  using secant_seeds_bounds [of "0.02"] by simp

section \<open>Properties of head loss and pumping power\<close>

text \<open>
  Against claim C7 as stated: with \<open>f = 0\<close> and \<open>sum_K = 0\<close>, which the claim admits,
  the head loss is 0 at every velocity, so it does not grow from \<open>V = 1\<close> to \<open>V = 2\<close>.
\<close>

theorem total_head_loss_flat_without_losses:
  "total_head_loss 0 1 1 1 0 1 = 0 \<and> total_head_loss 0 1 1 2 0 1 = 0
   \<and> \<not> (total_head_loss 0 1 1 1 0 1 < total_head_loss 0 1 1 2 0 1)"
  by (simp add: total_head_loss_def)

subsection \<open>Monotonicity of the head loss\<close>

text \<open>
  In exact arithmetic, with the square of the velocity in the double range, the
  floating-point head loss is \<open>total_head_loss\<close>.
\<close>

lemma total_head_loss_fl_exact:
  "V\<^sup>2 < DBL_OVERFLOW \<Longrightarrow>
     total_head_loss_fl (\<lambda>x. x) f L D V sum_K g = Inr (total_head_loss f L D V sum_K g)"
  by (simp add: total_head_loss_fl_def total_head_loss_def py_pow2_def Let_def)

text \<open>
  In exact arithmetic the head loss is strictly increasing in the velocity as soon as
  the friction factor or the sum of the minor-loss coefficients is positive.
\<close>

lemma total_head_loss_exact_strict_mono:
  assumes "0 \<le> f" "0 < L" "0 < D" "0 \<le> sum_K" "0 < g" "0 < f \<or> 0 < sum_K"
    and "0 < V1" "V1 < V2"
  shows "total_head_loss f L D V1 sum_K g < total_head_loss f L D V2 sum_K g"
proof -
  have c: "0 < f * (L / D) + sum_K"
    using assms by (auto intro: add_pos_nonneg add_nonneg_pos mult_pos_pos mult_nonneg_nonneg)
  have sq: "V1\<^sup>2 < V2\<^sup>2"
    using assms by (simp add: power_strict_mono)
  have vh: "V1\<^sup>2 / (2 * g) < V2\<^sup>2 / (2 * g)"
    using sq assms by (simp add: divide_strict_right_mono)
  have eq: "\<And>V. total_head_loss f L D V sum_K g = (f * (L / D) + sum_K) * (V\<^sup>2 / (2 * g))"
    using assms
    by (simp add: total_head_loss_def Let_def distrib_right
          del: times_divide_eq_right times_divide_eq_left)
  show ?thesis
    unfolding eq using c vh by (rule mult_strict_left_mono [rotated])
qed

text \<open>
  Every step of the formula is monotone in the velocity and rounding keeps the order, so
  the rounded head loss never decreases, and what stays in range at the larger velocity
  stays in range at the smaller one.
\<close>

lemma total_head_loss_fl_weak_mono:
  assumes mono: "\<And>x y. x \<le> y \<Longrightarrow> fl x \<le> fl y" and zero: "fl 0 = 0"
    and f: "0 \<le> f" and L: "0 < L" and D: "0 < D" and K: "0 \<le> sum_K" and g: "0 < g"
    and V1: "0 < V1" and le: "V1 \<le> V2" and rng: "head_loss_in_range fl f L D V2 sum_K g"
  shows "\<exists>h1 h2. total_head_loss_fl fl f L D V1 sum_K g = Inr h1
               \<and> total_head_loss_fl fl f L D V2 sum_K g = Inr h2 \<and> h1 \<le> h2
               \<and> head_loss_in_range fl f L D V1 sum_K g"
proof -
  define vh where "vh V = fl (fl (V\<^sup>2) / (2 * g))" for V
  define c where "c = fl (f * fl (L / D))"
  define h where "h V = fl (fl (c * vh V) + fl (sum_K * vh V))" for V
  have pos: "0 \<le> fl x" if "0 \<le> x" for x
    using mono [OF that] zero by simp
  have lt: "x < DBL_OVERFLOW" if "\<bar>x\<bar> < DBL_OVERFLOW" for x
    using that by (simp add: abs_less_iff)
  have bnd: "\<bar>x\<bar> < DBL_OVERFLOW" if "0 \<le> x" "x \<le> y" "y < DBL_OVERFLOW" for x y
    using that by simp
  note R = rng [unfolded head_loss_in_range_def Let_def c_def [symmetric] vh_def [symmetric]]
  have r2: "V2\<^sup>2 < DBL_OVERFLOW" "fl (V2\<^sup>2) / (2 * g) < DBL_OVERFLOW"
    "c * vh V2 < DBL_OVERFLOW" "sum_K * vh V2 < DBL_OVERFLOW"
    "fl (c * vh V2) + fl (sum_K * vh V2) < DBL_OVERFLOW"
    using R by (blast intro: lt)+
  have fixed: "\<bar>2 * g\<bar> < DBL_OVERFLOW" "\<bar>L / D\<bar> < DBL_OVERFLOW"
    "\<bar>f * fl (L / D)\<bar> < DBL_OVERFLOW"
    using R by blast+
  have sq: "V1\<^sup>2 \<le> V2\<^sup>2"
    using V1 le by (simp add: power_mono)
  then have rng1: "V1\<^sup>2 < DBL_OVERFLOW" using r2(1) by simp
  have e1: "total_head_loss_fl fl f L D V1 sum_K g = Inr (h V1)"
    using D g rng1 by (simp add: total_head_loss_fl_def py_pow2_def Let_def h_def vh_def c_def)
  have e2: "total_head_loss_fl fl f L D V2 sum_K g = Inr (h V2)"
    using D g r2(1) by (simp add: total_head_loss_fl_def py_pow2_def Let_def h_def vh_def c_def)
  have fsq: "fl (V1\<^sup>2) \<le> fl (V2\<^sup>2)" using sq by (rule mono)
  have fsq0: "0 \<le> fl (V1\<^sup>2)" by (rule pos) simp
  have q: "fl (V1\<^sup>2) / (2 * g) \<le> fl (V2\<^sup>2) / (2 * g)"
    using fsq g by (simp add: divide_right_mono)
  have q0: "0 \<le> fl (V1\<^sup>2) / (2 * g)" using fsq0 g by simp
  have vh: "vh V1 \<le> vh V2" unfolding vh_def using q by (rule mono)
  have vh0: "0 \<le> vh V1" unfolding vh_def using q0 by (rule pos)
  have "0 \<le> L / D" using L D by simp
  then have "0 \<le> fl (L / D)" by (rule pos)
  then have "0 \<le> f * fl (L / D)" using f by simp
  then have c0: "0 \<le> c" unfolding c_def by (rule pos)
  have a': "c * vh V1 \<le> c * vh V2" using vh c0 by (rule mult_left_mono)
  then have a: "fl (c * vh V1) \<le> fl (c * vh V2)" by (rule mono)
  have a0': "0 \<le> c * vh V1" using c0 vh0 by simp
  then have a0: "0 \<le> fl (c * vh V1)" by (rule pos)
  have b': "sum_K * vh V1 \<le> sum_K * vh V2" using vh K by (rule mult_left_mono)
  then have b: "fl (sum_K * vh V1) \<le> fl (sum_K * vh V2)" by (rule mono)
  have b0': "0 \<le> sum_K * vh V1" using K vh0 by simp
  then have b0: "0 \<le> fl (sum_K * vh V1)" by (rule pos)
  have s: "fl (c * vh V1) + fl (sum_K * vh V1) \<le> fl (c * vh V2) + fl (sum_K * vh V2)"
    using a b by (rule add_mono)
  then have hh: "h V1 \<le> h V2" unfolding h_def by (rule mono)
  have "head_loss_in_range fl f L D V1 sum_K g"
    unfolding head_loss_in_range_def Let_def c_def [symmetric] vh_def [symmetric]
  proof (intro conjI)
    show "\<bar>V1\<^sup>2\<bar> < DBL_OVERFLOW" using rng1 by simp
    show "\<bar>fl (V1\<^sup>2) / (2 * g)\<bar> < DBL_OVERFLOW" using q0 q r2(2) by (rule bnd)
    show "\<bar>c * vh V1\<bar> < DBL_OVERFLOW" using a0' a' r2(3) by (rule bnd)
    show "\<bar>sum_K * vh V1\<bar> < DBL_OVERFLOW" using b0' b' r2(4) by (rule bnd)
    show "\<bar>fl (c * vh V1) + fl (sum_K * vh V1)\<bar> < DBL_OVERFLOW"
      using add_nonneg_nonneg [OF a0 b0] s r2(5) by (rule bnd)
  qed (rule fixed)+
  with e1 e2 hh show ?thesis by blast
qed

text \<open>
  Rounding can make the head loss flat even with a positive friction factor. The rounding
  \<open>flush_to_zero\<close> keeps the order and keeps zero, and with it the squares of the
  velocities \<open>1e-200\<close> and \<open>1e-199\<close> underflow, so that the head loss is 0 at both, as
  it is in Python.
\<close>

lemma flush_to_zero_mono: "x \<le> y \<Longrightarrow> flush_to_zero x \<le> flush_to_zero y"
  by (auto simp: flush_to_zero_def abs_le_iff split: if_splits)

lemma flush_to_zero_zero: "flush_to_zero 0 = 0"
  by (simp add: flush_to_zero_def)

lemma total_head_loss_underflow_plateau:
  "total_head_loss_fl flush_to_zero 0.02 100 0.1 (1 / 10 ^ 200) 0 9.81 = Inr 0
   \<and> total_head_loss_fl flush_to_zero 0.02 100 0.1 (1 / 10 ^ 199) 0 9.81 = Inr 0"
  by (simp add: total_head_loss_fl_def py_pow2_def DBL_OVERFLOW_def flush_to_zero_def Let_def
      power_divide)

text \<open>
  Claim C7, amended. For \<open>f \<ge> 0\<close>, \<open>L > 0\<close>, \<open>D > 0\<close>, \<open>sum_K \<ge> 0\<close>, \<open>g > 0\<close> and
  velocities \<open>0 < V1 \<le> V2\<close> such that every operation of the formula stays in the
  double range at \<open>V2\<close>, the head loss is returned at both velocities, every operation
  stays in range at \<open>V1\<close> too, and the head loss does not decrease: \<open>hL(V1) \<le> hL(V2)\<close>.
  This holds whatever the rounding of the floating-point operations, as long as it keeps
  the order and keeps zero, as round-to-nearest does. The increase need not be strict.
\<close>

theorem total_head_loss_monotone:
  assumes "\<And>x y. x \<le> y \<Longrightarrow> fl x \<le> fl y" and "fl 0 = 0"
    and "0 \<le> f" and "0 < L" and "0 < D" and "0 \<le> sum_K" and "0 < g"
    and "0 < V1" and "V1 \<le> V2" and "head_loss_in_range fl f L D V2 sum_K g"
  shows "\<exists>h1 h2. total_head_loss_fl fl f L D V1 sum_K g = Inr h1
               \<and> total_head_loss_fl fl f L D V2 sum_K g = Inr h2 \<and> h1 \<le> h2
               \<and> head_loss_in_range fl f L D V1 sum_K g"
  using assms by (rule total_head_loss_fl_weak_mono)

theorem total_head_loss_monotone_witness:
  "(\<lambda>x::real. x) 0 = 0
   \<and> (0::real) \<le> 0.02 \<and> (0::real) < 100 \<and> (0::real) < 0.1 \<and> (0::real) \<le> 0 \<and> (0::real) < 9.81
   \<and> (0::real) < 1 \<and> (1::real) \<le> 2
   \<and> head_loss_in_range (\<lambda>x. x) 0.02 100 0.1 2 0 9.81
   \<and> (\<exists>h1 h2. total_head_loss_fl (\<lambda>x. x) 0.02 100 0.1 1 0 9.81 = Inr h1
             \<and> total_head_loss_fl (\<lambda>x. x) 0.02 100 0.1 2 0 9.81 = Inr h2 \<and> h1 \<le> h2
             \<and> head_loss_in_range (\<lambda>x. x) 0.02 100 0.1 1 0 9.81)"
proof -
  have r: "head_loss_in_range (\<lambda>x. x) 0.02 100 0.1 2 0 9.81"
    by (simp add: head_loss_in_range_def DBL_OVERFLOW_def)
  have "\<exists>h1 h2. total_head_loss_fl (\<lambda>x. x) 0.02 100 0.1 1 0 9.81 = Inr h1
             \<and> total_head_loss_fl (\<lambda>x. x) 0.02 100 0.1 2 0 9.81 = Inr h2 \<and> h1 \<le> h2
             \<and> head_loss_in_range (\<lambda>x. x) 0.02 100 0.1 1 0 9.81"
    using total_head_loss_monotone [of "\<lambda>x. x" "0.02" 100 "0.1" 0 "9.81" 1 2] r by simp
  then show ?thesis using r by simp
qed

text \<open>
  Claim C5. \<open>pumping_power\<close> raises (a \<open>ValueError\<close>, before anything is computed) exactly
  when the efficiency is at most 0. For a positive efficiency it returns
  \<open>Q * delta_P / efficiency\<close> for the system \<open>SI\<close>, and \<open>(Q * delta_P / 550) / efficiency\<close>
  for every other system, the Imperial one (\<open>INGLES\<close>) among them.
\<close>

theorem pumping_power_cases:
  "((\<exists>e. pumping_power Q delta_P system efficiency = Inl e) \<longleftrightarrow> efficiency \<le> 0)
   \<and> (efficiency \<le> 0 \<longrightarrow> pumping_power Q delta_P system efficiency = Inl ValueError)
   \<and> (0 < efficiency \<longrightarrow> system = ''SI'' \<longrightarrow>
        pumping_power Q delta_P system efficiency = Inr (Q * delta_P / efficiency))
   \<and> (0 < efficiency \<longrightarrow> system \<noteq> ''SI'' \<longrightarrow>
        pumping_power Q delta_P system efficiency = Inr ((Q * delta_P / 550) / efficiency))"
  by (auto simp: pumping_power_def Let_def)

theorem pumping_power_cases_witness:
  "(0::real) \<le> 0 \<and> pumping_power 2 100 ''SI'' 0 = Inl ValueError
   \<and> (0::real) < 0.5 \<and> pumping_power 2 100 ''SI'' 0.5 = Inr (2 * 100 / 0.5)
   \<and> ''INGLES'' \<noteq> ''SI'' \<and> pumping_power 2 100 ''INGLES'' 0.5 = Inr ((2 * 100 / 550) / 0.5)"
  using pumping_power_cases [of 2 100 "''SI''" 0]
    pumping_power_cases [of 2 100 "''SI''" "0.5"]
    pumping_power_cases [of 2 100 "''INGLES''" "0.5"]
  by simp

section \<open>Properties of the velocity solver\<close>

subsection \<open>The attempts in terms of the root finder's answers\<close>



subsection \<open>The outcome of the solver\<close>











text \<open>
  A run of the no-solution path: no pressure or elevation difference, a root finder that
  raises on every call. The residual is positive at both ends of \<open>[0.001, 20]\<close>, so no
  bracket search is made, the other two strategies fail, and the solver reports it.
\<close>

lemma solve_velocity_no_energy_example:
  "solve_velocity raising_root_scalar 0 0 0 0 1 1 1 1 0 1 None 0.001 20
     = (Inr None, [VelocityNotSolved])"
  by (simp add: solve_velocity_def Let_def bracket_attempt_def energy_equation_for_V_def
      raising_root_scalar_def accept_root_def reynolds_number_def py_pow2_def DBL_OVERFLOW_def
      colebrook_white_friction_factor_def total_head_loss_fl_def V_est_def seed_x0_def seed_x1_def)

text \<open>
  A run with a negative \<^verbatim>\<open>g\<close> and a positive available head: the estimate is
  \<^verbatim>\<open>nan\<close> and the secant strategy is started at the bounds \<open>0.001\<close> and \<open>20\<close>.
  The root finder here accepts a secant call only with these seeds.
\<close>

lemma solve_velocity_negative_g_seeds:
  "fst (solve_velocity
      (\<lambda>F m n. case m of Secant x0 x1 \<Rightarrow> (Inr \<lparr>converged = x0 = 0.001 \<and> x1 = 20, root = 3\<rparr>, [])
                       | _ \<Rightarrow> (Inl RuntimeError, []))
      0 1 0 0 1 1 1 1 0 (- 1) None 0.001 20) = Inr (Some (3, 3 * (pi * 1 / 4)))"
  by (simp add: solve_velocity_def Let_def bracket_attempt_def 
      accept_root_def py_pow2_def DBL_OVERFLOW_def
      V_est_def seed_x0_def seed_x1_def split: prod.splits sum.splits)

section \<open>Properties of the chart data\<close>

lemma eps_D_zero:
  "(if D \<noteq> 0 then me / D else 0.0) = (if D \<noteq> 0 then me / D else (0::real))"
  by simp

text \<open>The loop appends to what it was given.\<close>

lemma hl_loop_acc:
  "hl_loop rs L D nu sum_K g me Vs (data, ws) =
     (data @ fst (hl_loop rs L D nu sum_K g me Vs ([], [])),
      ws @ snd (hl_loop rs L D nu sum_K g me Vs ([], [])))"
proof (induction Vs arbitrary: data ws)
  case Nil
  show ?case by simp
next
  case (Cons V Vs)
  show ?case
  proof (cases "V \<le> 0")
    case True
    then show ?thesis using Cons.IH [of data ws] by simp
  next
    case False
    obtain f w where fw: "colebrook_white_friction_factor rs (reynolds_number V D nu)
        (if D \<noteq> 0 then me / D else 0) = (f, w)"
      by (cases "colebrook_white_friction_factor rs (reynolds_number V D nu)
        (if D \<noteq> 0 then me / D else 0)")
    show ?thesis
      using False fw
        Cons.IH [of "data @ [(V, total_head_loss f L D V sum_K g)]" "ws @ w"]
        Cons.IH [of "[(V, total_head_loss f L D V sum_K g)]" "w"]
      by (simp add: Let_def eps_D_zero split del: if_split)
  qed
qed

text \<open>The samples of the loop: one per positive velocity, in the order of the list.\<close>

lemma hl_loop_data:
  "fst (hl_loop rs L D nu sum_K g me Vs ([], [])) =
     map (\<lambda>V. (V, total_head_loss
                     (fst (colebrook_white_friction_factor rs (reynolds_number V D nu)
                             (if D \<noteq> 0 then me / D else 0)))
                     L D V sum_K g))
         (filter (\<lambda>V. 0 < V) Vs)"
proof (induction Vs)
  case Nil
  show ?case by simp
next
  case (Cons V Vs)
  show ?case
  proof (cases "V \<le> 0")
    case True
    then show ?thesis using Cons.IH by simp
  next
    case False
    obtain f w where fw: "colebrook_white_friction_factor rs (reynolds_number V D nu)
        (if D \<noteq> 0 then me / D else 0) = (f, w)"
      by (cases "colebrook_white_friction_factor rs (reynolds_number V D nu)
        (if D \<noteq> 0 then me / D else 0)")
    have "hl_loop rs L D nu sum_K g me (V # Vs) ([], []) =
          hl_loop rs L D nu sum_K g me Vs ([(V, total_head_loss f L D V sum_K g)], w)"
      using False fw by (simp add: Let_def eps_D_zero split del: if_split)
    then show ?thesis
      using False fw Cons.IH
        hl_loop_acc [of rs L D nu sum_K g me Vs "[(V, total_head_loss f L D V sum_K g)]" w]
      by (simp split del: if_split)
  qed
qed

lemma linspace_uniform:
  assumes "2 \<le> num"
  shows "linspace start stop num =
           map (\<lambda>i. start + real i * ((stop - start) / real (num - 1))) [0..<num]"
proof -
  from assms obtain m where m: "num = Suc (Suc m)"
    by (metis Suc_le_D numeral_2_eq_2 Suc_le_mono)
  have "start + real (Suc m) * ((stop - start) / real (Suc m)) = stop"
    by simp
  then show ?thesis using m
    by (simp add: linspace_def del: of_nat_Suc)
qed

lemma linspace_sorted:
  assumes le: "start \<le> stop"
  shows "sorted (linspace start stop num)"
proof -
  consider "num = 0" | "num = 1" | "2 \<le> num" by linarith
  then show ?thesis
  proof cases
    case 1
    then show ?thesis by (simp add: linspace_def)
  next
    case 2
    then show ?thesis by (simp add: linspace_def)
  next
    case 3
    have step: "0 \<le> (stop - start) / real (num - 1)" using le by simp
    have mono: "start + real i * ((stop - start) / real (num - 1))
               \<le> start + real j * ((stop - start) / real (num - 1))" if "i \<le> j" for i j :: nat
      using that step by (intro add_left_mono mult_right_mono) simp_all
    have "sorted_wrt (\<lambda>i j. start + real i * ((stop - start) / real (num - 1))
               \<le> start + real j * ((stop - start) / real (num - 1))) [0..<num]"
      by (rule sorted_wrt_mono_rel [OF _ sorted_upt]) (rule mono)
    then show ?thesis
      unfolding linspace_uniform [OF 3] by (simp only: sorted_map)
  qed
qed

lemma generate_data:
  assumes "1 \<le> steps"
  shows "fst (generate_hl_vs_v_data rs V_min V_max steps L D nu sum_K g me) =
     Inr (map (\<lambda>V. (V, total_head_loss
                     (fst (colebrook_white_friction_factor rs (reynolds_number V D nu)
                             (if D \<noteq> 0 then me / D else 0)))
                     L D V sum_K g))
              (filter (\<lambda>V. 0 < V) (linspace V_min V_max (nat steps))))"
proof -
  have "fst (generate_hl_vs_v_data rs V_min V_max steps L D nu sum_K g me) =
        Inr (fst (hl_loop rs L D nu sum_K g me (linspace V_min V_max (nat steps)) ([], [])))"
    using assms by (simp add: generate_hl_vs_v_data_def Let_def split: prod.splits)
  then show ?thesis by (simp only: hl_loop_data)
qed

text \<open>
  Claim C9. \<open>generate_hl_vs_v_data\<close> raises exactly when \<open>steps \<le> 0\<close>. For
  \<open>steps \<ge> 1\<close> it returns the pairs \<open>(V, hL(V))\<close> for the points \<open>V\<close> of the uniform
  partition of \<open>[V_min, V_max]\<close> into \<open>steps\<close> points (\<open>V_min\<close> alone for one point,
  \<open>V_min + i * (V_max - V_min) / (steps - 1)\<close> for \<open>i < steps\<close> otherwise), in the
  order of the partition, which is increasing in \<open>V\<close> for \<open>V_min \<le> V_max\<close>; a point is
  left out exactly when it is at most 0; and each \<open>hL(V)\<close> is computed from that \<open>V\<close>
  alone, through the Reynolds number, the friction factor and \<open>total_head_loss\<close>.
\<close>

theorem generate_hl_vs_v_data_samples:
  "((\<exists>e. fst (generate_hl_vs_v_data rs V_min V_max steps L D nu sum_K g me) = Inl e)
      \<longleftrightarrow> steps \<le> 0)
   \<and> (1 \<le> steps \<longrightarrow>
        fst (generate_hl_vs_v_data rs V_min V_max steps L D nu sum_K g me) =
          Inr (map (\<lambda>V. (V, total_head_loss
                              (fst (colebrook_white_friction_factor rs (reynolds_number V D nu)
                                      (if D \<noteq> 0 then me / D else 0)))
                              L D V sum_K g))
                   (filter (\<lambda>V. \<not> V \<le> 0) (linspace V_min V_max (nat steps))))
        \<and> linspace V_min V_max (nat steps) =
            (if steps = 1 then [V_min]
             else map (\<lambda>i. V_min + real i * ((V_max - V_min) / real (nat steps - 1)))
                      [0..<nat steps])
        \<and> (V_min \<le> V_max \<longrightarrow>
             (\<exists>data. fst (generate_hl_vs_v_data rs V_min V_max steps L D nu sum_K g me) = Inr data
                     \<and> sorted (map fst data))))"
proof (intro conjI impI)
  show "(\<exists>e. fst (generate_hl_vs_v_data rs V_min V_max steps L D nu sum_K g me) = Inl e)
          \<longleftrightarrow> steps \<le> 0"
    by (auto simp: generate_hl_vs_v_data_def Let_def split: prod.splits)
next
  assume s: "1 \<le> steps"
  have nle: "(\<lambda>V::real. \<not> V \<le> 0) = (\<lambda>V. 0 < V)" by (simp add: not_le)
  show "fst (generate_hl_vs_v_data rs V_min V_max steps L D nu sum_K g me) =
          Inr (map (\<lambda>V. (V, total_head_loss
                              (fst (colebrook_white_friction_factor rs (reynolds_number V D nu)
                                      (if D \<noteq> 0 then me / D else 0)))
                              L D V sum_K g))
                   (filter (\<lambda>V. \<not> V \<le> 0) (linspace V_min V_max (nat steps))))"
    unfolding nle using s by (rule generate_data)
next
  assume s: "1 \<le> steps"
  show "linspace V_min V_max (nat steps) =
            (if steps = 1 then [V_min]
             else map (\<lambda>i. V_min + real i * ((V_max - V_min) / real (nat steps - 1)))
                      [0..<nat steps])"
  proof (cases "steps = 1")
    case True
    then show ?thesis by (simp add: linspace_def)
  next
    case False
    with s have "2 \<le> nat steps" by simp
    then show ?thesis using False by (simp only: linspace_uniform if_False)
  qed
next
  assume s: "1 \<le> steps" and le: "V_min \<le> V_max"
  have "sorted (filter (\<lambda>V. 0 < V) (linspace V_min V_max (nat steps)))"
    using linspace_sorted [OF le] by (rule sorted_wrt_filter)
  then have "sorted (map fst
      (map (\<lambda>V. (V, total_head_loss
                     (fst (colebrook_white_friction_factor rs (reynolds_number V D nu)
                             (if D \<noteq> 0 then me / D else 0)))
                     L D V sum_K g))
         (filter (\<lambda>V. 0 < V) (linspace V_min V_max (nat steps)))))"
    by (simp add: comp_def)
  then show "\<exists>data. fst (generate_hl_vs_v_data rs V_min V_max steps L D nu sum_K g me) = Inr data
                     \<and> sorted (map fst data)"
    using generate_data [OF s] by blast
qed

theorem generate_hl_vs_v_data_samples_witness:
  "(1::int) \<le> 3 \<and> (- 1 :: real) \<le> 1
   \<and> linspace (- 1) 1 (nat 3) = [- 1, 0, 1]
   \<and> fst (generate_hl_vs_v_data raising_root_scalar (- 1) 1 3 1 1 1 0 1 0) = Inr [(1, 32)]
   \<and> (0::int) \<le> 0
   \<and> (\<exists>e. fst (generate_hl_vs_v_data raising_root_scalar (- 1) 1 0 1 1 1 0 1 0) = Inl e)"
proof -
  have three: "nat 3 = Suc (Suc (Suc 0))" by simp
  have lin: "linspace (- 1) 1 (nat 3) = [- 1, 0, 1]"
    unfolding three by (simp add: linspace_def)
  have f: "colebrook_white_friction_factor raising_root_scalar (reynolds_number 1 1 1) 0 = (64, [])"
    by (simp add: colebrook_white_friction_factor_def reynolds_number_def)
  have h: "total_head_loss 64 1 1 1 0 1 = 32"
    by (simp add: total_head_loss_def)
  have run: "fst (generate_hl_vs_v_data raising_root_scalar (- 1) 1 3 1 1 1 0 1 0) = Inr [(1, 32)]"
    using generate_hl_vs_v_data_samples [of raising_root_scalar "- 1" 1 3 1 1 1 0 1 0,
        THEN conjunct2, rule_format, THEN conjunct1]
    unfolding lin by (simp add: f h)
  have err: "\<exists>e. fst (generate_hl_vs_v_data raising_root_scalar (- 1) 1 0 1 1 1 0 1 0) = Inl e"
    using generate_hl_vs_v_data_samples [of raising_root_scalar "- 1" 1 0 1 1 1 0 1 0,
        THEN conjunct1]
    by simp
  show ?thesis using lin run err by simp
qed

end
